theory Spec2Isabelle
  imports Complex_Main "HOL-Library.Word"
begin

section \<open>pyzbar.decode: the data\<close>

text \<open>
  The module \<^verbatim>\<open>pyzbar/pyzbar.py\<close> is glue around the native zbar library. Python
  \<^verbatim>\<open>bytes\<close> are lists of 8-bit words, Python integers are \<^typ>\<open>int\<close>, a native
  handle is a number and the NULL handle is \<^term>\<open>None\<close>.
\<close>

type_synonym bytes = "8 word list"
type_synonym handle = nat

text \<open>\<^verbatim>\<open>Decoded = namedtuple('Decoded', ['data', 'type'])\<close>\<close>

record Decoded =
  data :: bytes
  type :: string

text \<open>
  The exceptions that leave \<^verbatim>\<open>decode\<close>. \<^verbatim>\<open>PyZbarError\<close> carries its message; the
  bits-per-pixel message is kept without the formatted number. \<^verbatim>\<open>IndexError\<close> is what
  numpy raises for an index expression that does not fit the array.
\<close>

datatype error = PyZbarError string | ZeroDivisionError | ValueError | IndexError

text \<open>
  The argument of \<^verbatim>\<open>decode\<close>, one of the three kinds its docstring names. PIL and numpy
  are not part of the source, so an object of theirs is given by what the calls of
  lines 87 to 91 read from it, and those calls are taken to return:

  \<^item> a PIL image by the bytes of \<^verbatim>\<open>image.convert('L').tobytes()\<close> and by \<^verbatim>\<open>image.size\<close>,
    the pair (width, height);

  \<^item> a numpy array by \<^verbatim>\<open>image.shape\<close> and by the bytes of
    \<^verbatim>\<open>image[:, :, 0].astype('uint8').tobytes()\<close>, which exist only when the index
    expression is valid for that shape;

  \<^item> a tuple \<^verbatim>\<open>(pixels, width, height)\<close> by its three components.
\<close>

datatype image_arg =
    PIL_Image bytes "int \<times> int"
  | Ndarray "nat list" bytes
  | Tuple bytes int int

text \<open>\<^verbatim>\<open>FOURCC = {'L800': 808466521, 'GRAY': 1497715271}\<close>\<close>

definition FOURCC :: "string \<rightharpoonup> int" where
  "FOURCC = [''L800'' \<mapsto> 808466521, ''GRAY'' \<mapsto> 1497715271]"

definition FOURCC_L800 :: int where
  "FOURCC_L800 = the (FOURCC ''L800'')"

subsection \<open>The native side\<close>

text \<open>
  A symbol of the native result list: the bytes the library stored for it (in C memory they
  are followed by a terminating NUL byte) and the integer \<^verbatim>\<open>symbol.contents.value\<close>.
  The linked list walked with \<^verbatim>\<open>zbar_image_first_symbol\<close> / \<^verbatim>\<open>zbar_symbol_next\<close>
  is a HOL list.
\<close>

record zbar_symbol =
  sym_data :: bytes
  sym_value :: int

text \<open>An image object of the native library, as the setter calls fill it.\<close>

record zimage =
  img_format :: int
  img_width :: int
  img_height :: int
  img_data :: bytes
  img_datalen :: int
  img_symbols :: "zbar_symbol list"

type_synonym zconfig = "(int \<times> int \<times> int) list"

text \<open>
  What \<^verbatim>\<open>from .wrapper import ...\<close> brings in and the source does not define: the enum
  members \<^verbatim>\<open>ZBarSymbol.QRCODE\<close>, \<^verbatim>\<open>ZBarSymbol.CODE128\<close>, \<^verbatim>\<open>ZBarConfig.CFG_ENABLE\<close>,
  the enum constructor \<^verbatim>\<open>ZBarSymbol(v).name\<close> (\<^term>\<open>None\<close> when \<open>v\<close> is no member, where
  Python raises \<^verbatim>\<open>ValueError\<close>), whether the two native constructors return a handle
  or NULL, and the scanner itself: from the configuration of a scanner and the contents of
  an image to the return code of \<^verbatim>\<open>zbar_scan_image\<close> and the symbols it attaches to the
  image.
\<close>

record zbar =
  QRCODE :: int
  CODE128 :: int
  CFG_ENABLE :: int
  ZBarSymbol :: "int \<Rightarrow> string option"
  scanner_available :: bool
  image_available :: bool
  scan :: "zconfig \<Rightarrow> zimage \<Rightarrow> int \<times> zbar_symbol list"

text \<open>Every call into the native library is recorded.\<close>

datatype call =
    Scanner_create handle
  | Scanner_destroy handle
  | Image_create handle
  | Image_destroy handle
  | Set_config handle int int int
  | Set_format handle int
  | Set_size handle int int
  | Set_data handle bytes int
  | Scan_image handle handle

text \<open>
  The state of the process outside \<^verbatim>\<open>decode\<close>: the next handle the library will hand
  out, the live scanners with their configuration, the live images, and the calls made so far.
\<close>

record world =
  next_handle :: handle
  scanners :: "handle \<rightharpoonup> zconfig"
  images :: "handle \<rightharpoonup> zimage"
  calls :: "call list"

definition blank_image :: zimage where
  "blank_image = \<lparr>img_format = 0, img_width = 0, img_height = 0, img_data = [],
     img_datalen = 0, img_symbols = []\<rparr>"

definition zbar_image_scanner_create :: "zbar \<Rightarrow> world \<Rightarrow> handle option \<times> world" where
  "zbar_image_scanner_create Z w =
     (if scanner_available Z then
        (Some (next_handle w),
         w\<lparr>next_handle := Suc (next_handle w),
           scanners := (scanners w)(next_handle w \<mapsto> []),
           calls := calls w @ [Scanner_create (next_handle w)]\<rparr>)
      else (None, w))"

definition zbar_image_scanner_destroy :: "handle \<Rightarrow> world \<Rightarrow> world" where
  "zbar_image_scanner_destroy scanner w =
     w\<lparr>scanners := (scanners w)(scanner := None),
       calls := calls w @ [Scanner_destroy scanner]\<rparr>"

definition zbar_image_create :: "zbar \<Rightarrow> world \<Rightarrow> handle option \<times> world" where
  "zbar_image_create Z w =
     (if image_available Z then
        (Some (next_handle w),
         w\<lparr>next_handle := Suc (next_handle w),
           images := (images w)(next_handle w \<mapsto> blank_image),
           calls := calls w @ [Image_create (next_handle w)]\<rparr>)
      else (None, w))"

definition zbar_image_destroy :: "handle \<Rightarrow> world \<Rightarrow> world" where
  "zbar_image_destroy img w =
     w\<lparr>images := (images w)(img := None),
       calls := calls w @ [Image_destroy img]\<rparr>"

text \<open>The setters change a live object and leave the world alone on a dead handle.\<close>

definition zbar_image_scanner_set_config ::
    "handle \<Rightarrow> int \<Rightarrow> int \<Rightarrow> int \<Rightarrow> world \<Rightarrow> world" where
  "zbar_image_scanner_set_config scanner symbology cfg val w =
     w\<lparr>scanners := (case scanners w scanner of
                       None \<Rightarrow> scanners w
                     | Some c \<Rightarrow> (scanners w)(scanner \<mapsto> c @ [(symbology, cfg, val)])),
       calls := calls w @ [Set_config scanner symbology cfg val]\<rparr>"

definition update_image :: "handle \<Rightarrow> (zimage \<Rightarrow> zimage) \<Rightarrow> world \<Rightarrow> handle \<rightharpoonup> zimage" where
  "update_image img f w =
     (case images w img of
        None \<Rightarrow> images w
      | Some i \<Rightarrow> (images w)(img \<mapsto> f i))"

definition zbar_image_set_format :: "handle \<Rightarrow> int \<Rightarrow> world \<Rightarrow> world" where
  "zbar_image_set_format img fmt w =
     w\<lparr>images := update_image img (\<lambda>i. i\<lparr>img_format := fmt\<rparr>) w,
       calls := calls w @ [Set_format img fmt]\<rparr>"

definition zbar_image_set_size :: "handle \<Rightarrow> int \<Rightarrow> int \<Rightarrow> world \<Rightarrow> world" where
  "zbar_image_set_size img width height w =
     w\<lparr>images := update_image img (\<lambda>i. i\<lparr>img_width := width, img_height := height\<rparr>) w,
       calls := calls w @ [Set_size img width height]\<rparr>"

definition zbar_image_set_data :: "handle \<Rightarrow> bytes \<Rightarrow> int \<Rightarrow> world \<Rightarrow> world" where
  "zbar_image_set_data img pixels n w =
     w\<lparr>images := update_image img (\<lambda>i. i\<lparr>img_data := pixels, img_datalen := n\<rparr>) w,
       calls := calls w @ [Set_data img pixels n]\<rparr>"

text \<open>
  \<^verbatim>\<open>zbar_scan_image(scanner, img)\<close>: the library scans the image with the scanner's
  configuration, attaches the symbols it found to the image and returns its code; on a
  dead handle it returns \<open>-1\<close>.
\<close>

definition zbar_scan_image :: "zbar \<Rightarrow> handle \<Rightarrow> handle \<Rightarrow> world \<Rightarrow> int \<times> world" where
  "zbar_scan_image Z scanner img w =
     (case (scanners w scanner, images w img) of
        (Some c, Some i) \<Rightarrow>
          (case scan Z c i of
             (n, syms) \<Rightarrow>
               (n, w\<lparr>images := (images w)(img \<mapsto> i\<lparr>img_symbols := syms\<rparr>),
                     calls := calls w @ [Scan_image scanner img]\<rparr>))
      | _ \<Rightarrow> (- 1, w\<lparr>calls := calls w @ [Scan_image scanner img]\<rparr>))"

definition zbar_image_first_symbol :: "handle \<Rightarrow> world \<Rightarrow> zbar_symbol list" where
  "zbar_image_first_symbol img w =
     (case images w img of None \<Rightarrow> [] | Some i \<Rightarrow> img_symbols i)"

text \<open>
  \<^verbatim>\<open>string_at(ptr)\<close> without a size reads a C string: the bytes before the first NUL.
\<close>

definition string_at :: "bytes \<Rightarrow> bytes" where
  "string_at mem = takeWhile (\<lambda>b. b \<noteq> 0) mem"

section \<open>pyzbar.decode: the code\<close>

type_synonym 'a result = "(error + 'a) \<times> world"

text \<open>
  The two context managers: create, raise on NULL, run the body, and destroy in the
  \<^verbatim>\<open>finally\<close> clause whether the body returned or raised.
\<close>

definition zbar_image :: "zbar \<Rightarrow> (handle \<Rightarrow> world \<Rightarrow> 'a result) \<Rightarrow> world \<Rightarrow> 'a result" where
  "zbar_image Z body w =
     (case zbar_image_create Z w of
        (None, w1) \<Rightarrow> (Inl (PyZbarError ''Could not create image''), w1)
      | (Some img, w1) \<Rightarrow>
          (case body img w1 of
             (r, w2) \<Rightarrow> (r, zbar_image_destroy img w2)))"

definition zbar_image_scanner ::
    "zbar \<Rightarrow> (handle \<Rightarrow> world \<Rightarrow> 'a result) \<Rightarrow> world \<Rightarrow> 'a result" where
  "zbar_image_scanner Z body w =
     (case zbar_image_scanner_create Z w of
        (None, w1) \<Rightarrow> (Inl (PyZbarError ''Could not create decoder''), w1)
      | (Some scanner, w1) \<Rightarrow>
          (case body scanner w1 of
             (r, w2) \<Rightarrow> (r, zbar_image_scanner_destroy scanner w2)))"

text \<open>
  The \<^verbatim>\<open>while symbol:\<close> loop over the result list, appending to \<^verbatim>\<open>results\<close>.
\<close>

fun symbols_loop :: "zbar \<Rightarrow> zbar_symbol list \<Rightarrow> Decoded list \<Rightarrow> error + Decoded list" where
  "symbols_loop Z [] results = Inr results"
| "symbols_loop Z (symbol # rest) results =
     (let data = string_at (sym_data symbol) in
      case ZBarSymbol Z (sym_value symbol) of
        None \<Rightarrow> Inl ValueError
      | Some symbol_type \<Rightarrow>
          symbols_loop Z rest (results @ [\<lparr>data = data, type = symbol_type\<rparr>]))"

text \<open>
  The body of the inner \<^verbatim>\<open>with zbar_image() as img:\<close> block and of the outer
  \<^verbatim>\<open>with zbar_image_scanner() as scanner:\<close> block.
\<close>

definition image_block ::
    "zbar \<Rightarrow> bytes \<Rightarrow> int \<Rightarrow> int \<Rightarrow> handle \<Rightarrow> handle \<Rightarrow> world \<Rightarrow> Decoded list result" where
  "image_block Z pixels width height scanner img w0 =
     (let w1 = zbar_image_set_format img FOURCC_L800 w0;
          w2 = zbar_image_set_size img width height w1;
          w3 = zbar_image_set_data img pixels (int (length pixels)) w2
      in case zbar_scan_image Z scanner img w3 of
           (decoded, w4) \<Rightarrow>
             if decoded < 0 then (Inl (PyZbarError ''Unsupported image format''), w4)
             else (symbols_loop Z (zbar_image_first_symbol img w4) [], w4))"

definition scanner_block ::
    "zbar \<Rightarrow> bytes \<Rightarrow> int \<Rightarrow> int \<Rightarrow> handle \<Rightarrow> world \<Rightarrow> Decoded list result" where
  "scanner_block Z pixels width height scanner w0 =
     (let w1 = zbar_image_scanner_set_config scanner (QRCODE Z) (CFG_ENABLE Z) 1 w0;
          w2 = zbar_image_scanner_set_config scanner (CODE128 Z) (CFG_ENABLE Z) 1 w1
      in zbar_image Z (image_block Z pixels width height scanner) w2)"

text \<open>
  Lines 84 to 94: the pixel bytes, the width and the height of the argument. The index
  expression \<^verbatim>\<open>image[:, :, 0]\<close> of line 90 raises \<^verbatim>\<open>IndexError\<close> on an array of fewer than
  three dimensions and on one whose third axis is empty; otherwise line 91 reads
  \<^verbatim>\<open>height, width = image.shape[:2]\<close>.
\<close>

definition image_pixels :: "image_arg \<Rightarrow> error + bytes \<times> int \<times> int" where
  "image_pixels img =
     (case img of
        PIL_Image pixels (width, height) \<Rightarrow> Inr (pixels, width, height)
      | Ndarray shape pixels \<Rightarrow>
          if length shape < 3 \<or> shape ! 2 = 0 then Inl IndexError
          else Inr (pixels, int (shape ! 1), int (shape ! 0))
      | Tuple pixels width height \<Rightarrow> Inr (pixels, width, height))"

text \<open>
  Lines 96 to 128: the bits-per-pixel test and the scan. The quotient
  \<^verbatim>\<open>8 * len(pixels) / (width * height)\<close> is Python 3's true division, taken exactly (the
  float quotient of two integers below \<open>2^53\<close> is \<open>8.0\<close> only when the exact one is \<open>8\<close>);
  a zero divisor raises \<^verbatim>\<open>ZeroDivisionError\<close>.
\<close>

definition decode_pixels ::
    "zbar \<Rightarrow> bytes \<times> int \<times> int \<Rightarrow> world \<Rightarrow> Decoded list result" where
  "decode_pixels Z input w =
     (case input of
        (pixels, width, height) \<Rightarrow>
          if width * height = 0 then (Inl ZeroDivisionError, w)
          else
            let bpp = (of_int (8 * int (length pixels)) :: rat) / of_int (width * height) in
            if 8 \<noteq> bpp then (Inl (PyZbarError ''Unsupported bits-per-pixel''), w)
            else zbar_image_scanner Z (scanner_block Z pixels width height) w)"

text \<open>\<^verbatim>\<open>decode(image)\<close>, lines 74 to 128.\<close>

definition decode :: "zbar \<Rightarrow> image_arg \<Rightarrow> world \<Rightarrow> Decoded list result" where
  "decode Z img w =
     (case image_pixels img of
        Inl e \<Rightarrow> (Inl e, w)
      | Inr input \<Rightarrow> decode_pixels Z input w)"

section \<open>Notions used in the statements\<close>

text \<open>
  The configuration \<^verbatim>\<open>decode\<close> gives its scanner (lines 103 to 108 of the source), the
  image it hands to \<^verbatim>\<open>zbar_scan_image\<close> (lines 110 to 112), and the entry the loop
  appends for a symbol whose type the enum knows.
\<close>

definition decode_config :: "zbar \<Rightarrow> zconfig" where
  "decode_config Z = [(QRCODE Z, CFG_ENABLE Z, 1), (CODE128 Z, CFG_ENABLE Z, 1)]"

definition decode_image :: "bytes \<Rightarrow> int \<Rightarrow> int \<Rightarrow> zimage" where
  "decode_image pixels width height =
     \<lparr>img_format = FOURCC_L800, img_width = width, img_height = height, img_data = pixels,
      img_datalen = int (length pixels), img_symbols = []\<rparr>"

definition to_Decoded :: "zbar \<Rightarrow> zbar_symbol \<Rightarrow> Decoded" where
  "to_Decoded Z s =
     \<lparr>data = string_at (sym_data s), type = the (ZBarSymbol Z (sym_value s))\<rparr>"

text \<open>The native calls of a run that reaches the scan, and of one that gets no image.\<close>

definition decode_calls :: "zbar \<Rightarrow> bytes \<Rightarrow> int \<Rightarrow> int \<Rightarrow> handle \<Rightarrow> call list" where
  "decode_calls Z pixels width height h =
     [Scanner_create h,
      Set_config h (QRCODE Z) (CFG_ENABLE Z) 1,
      Set_config h (CODE128 Z) (CFG_ENABLE Z) 1,
      Image_create (Suc h),
      Set_format (Suc h) FOURCC_L800,
      Set_size (Suc h) width height,
      Set_data (Suc h) pixels (int (length pixels)),
      Scan_image h (Suc h),
      Image_destroy (Suc h),
      Scanner_destroy h]"

definition imageless_calls :: "zbar \<Rightarrow> handle \<Rightarrow> call list" where
  "imageless_calls Z h =
     [Scanner_create h,
      Set_config h (QRCODE Z) (CFG_ENABLE Z) 1,
      Set_config h (CODE128 Z) (CFG_ENABLE Z) 1,
      Scanner_destroy h]"

text \<open>The native calls one invocation of \<^verbatim>\<open>decode\<close> adds to the record.\<close>

definition new_calls :: "zbar \<Rightarrow> image_arg \<Rightarrow> world \<Rightarrow> call list" where
  "new_calls Z input w = drop (length (calls w)) (calls (snd (decode Z input w)))"

text \<open>The \<^verbatim>\<open>zbar_image_scanner_set_config\<close> calls in a record, without the handle.\<close>

fun config_calls :: "call list \<Rightarrow> zconfig" where
  "config_calls [] = []"
| "config_calls (Set_config h symbology cfg val # cs) = (symbology, cfg, val) # config_calls cs"
| "config_calls (c # cs) = config_calls cs"

text \<open>
  The contract of the specification, \<^verbatim>\<open>scan(PixelBuffer, enabledSymbologies)\<close>: the
  scanner is set up with the tags the caller enabled, and with nothing else.
\<close>

definition enabledSymbologies_config :: "zbar \<Rightarrow> int list \<Rightarrow> zconfig" where
  "enabledSymbologies_config Z enabledSymbologies =
     map (\<lambda>tag. (tag, CFG_ENABLE Z, 1)) enabledSymbologies"

text \<open>
  Handle discipline of a record of calls, started with the live handles \<open>live\<close>: a handle is
  created while it is not live, used and destroyed only while it is live and by the
  functions of its own kind. The result is the list of handles still live at the end, or
  \<^term>\<open>None\<close> when the discipline is broken (a second destroy, a use after destroy).
\<close>

datatype kind = Scanner | Image

fun live_after :: "call list \<Rightarrow> (kind \<times> handle) list \<Rightarrow> (kind \<times> handle) list option" where
  "live_after [] live = Some live"
| "live_after (Scanner_create h # cs) live =
     (if (Scanner, h) \<in> set live then None else live_after cs ((Scanner, h) # live))"
| "live_after (Image_create h # cs) live =
     (if (Image, h) \<in> set live then None else live_after cs ((Image, h) # live))"
| "live_after (Scanner_destroy h # cs) live =
     (if (Scanner, h) \<in> set live then live_after cs (removeAll (Scanner, h) live) else None)"
| "live_after (Image_destroy h # cs) live =
     (if (Image, h) \<in> set live then live_after cs (removeAll (Image, h) live) else None)"
| "live_after (Set_config h symbology cfg val # cs) live =
     (if (Scanner, h) \<in> set live then live_after cs live else None)"
| "live_after (Set_format h fmt # cs) live =
     (if (Image, h) \<in> set live then live_after cs live else None)"
| "live_after (Set_size h width height # cs) live =
     (if (Image, h) \<in> set live then live_after cs live else None)"
| "live_after (Set_data h pixels n # cs) live =
     (if (Image, h) \<in> set live then live_after cs live else None)"
| "live_after (Scan_image s i # cs) live =
     (if (Scanner, s) \<in> set live \<and> (Image, i) \<in> set live then live_after cs live else None)"

text \<open>The handles a call mentions.\<close>

fun call_handles :: "call \<Rightarrow> handle list" where
  "call_handles (Scanner_create h) = [h]"
| "call_handles (Scanner_destroy h) = [h]"
| "call_handles (Image_create h) = [h]"
| "call_handles (Image_destroy h) = [h]"
| "call_handles (Set_config h symbology cfg val) = [h]"
| "call_handles (Set_format h fmt) = [h]"
| "call_handles (Set_size h width height) = [h]"
| "call_handles (Set_data h pixels n) = [h]"
| "call_handles (Scan_image s i) = [s, i]"

text \<open>A world in which the library has handed out every live handle itself.\<close>

definition wf_world :: "world \<Rightarrow> bool" where
  "wf_world w \<longleftrightarrow>
     (\<forall>h. h \<in> dom (scanners w) \<union> dom (images w) \<longrightarrow> h < next_handle w)"

subsection \<open>Sample libraries and inputs\<close>

text \<open>
  A library with zbar's numbering of the two tags and of \<^verbatim>\<open>ZBAR_CFG_ENABLE\<close>, which
  finds nothing in any image; variants of it that fail or that report symbols; a process
  that has made no call yet; a two-dimensional array, which line 90 cannot index, and a
  white pixel as an array of shape (1, 1, 3). The sample tuple is one white pixel,
  \<open>Tuple [255] 1 1\<close>.
\<close>

definition zbar_blind :: zbar where
  "zbar_blind =
     \<lparr>QRCODE = 64, CODE128 = 128, CFG_ENABLE = 0,
      ZBarSymbol = [64 \<mapsto> ''QRCODE'', 128 \<mapsto> ''CODE128'', 13 \<mapsto> ''EAN13''],
      scanner_available = True, image_available = True,
      scan = (\<lambda>c i. (0, []))\<rparr>"

definition zbar_failing_scan :: zbar where
  "zbar_failing_scan = zbar_blind\<lparr>scan := (\<lambda>c i. (- 1, []))\<rparr>"

definition zbar_no_scanner :: zbar where
  "zbar_no_scanner = zbar_blind\<lparr>scanner_available := False\<rparr>"

definition zbar_no_image :: zbar where
  "zbar_no_image = zbar_blind\<lparr>image_available := False\<rparr>"

definition qr_HI :: zbar_symbol where
  "qr_HI = \<lparr>sym_data = [72, 73], sym_value = 64\<rparr>"

definition zbar_twins :: zbar where
  "zbar_twins = zbar_blind\<lparr>scan := (\<lambda>c i. (2, [qr_HI, qr_HI]))\<rparr>"

definition qr_with_nul :: zbar_symbol where
  "qr_with_nul = \<lparr>sym_data = [65, 0, 66], sym_value = 64\<rparr>"

definition zbar_binary :: zbar where
  "zbar_binary = zbar_blind\<lparr>scan := (\<lambda>c i. (1, [qr_with_nul]))\<rparr>"

definition flat_array :: image_arg where
  "flat_array = Ndarray [2, 2] []"

definition rgb_pixel :: image_arg where
  "rgb_pixel = Ndarray [1, 1, 3] [255]"

definition fresh_world :: world where
  "fresh_world = \<lparr>next_handle = 1, scanners = Map.empty, images = Map.empty, calls = []\<rparr>"

section \<open>How a call runs\<close>

lemmas native_defs =
  zbar_image_scanner_create_def zbar_image_create_def zbar_image_scanner_set_config_def
  zbar_image_set_format_def zbar_image_set_size_def zbar_image_set_data_def
  zbar_scan_image_def zbar_image_first_symbol_def update_image_def
  zbar_image_destroy_def zbar_image_scanner_destroy_def

text \<open>The test \<^verbatim>\<open>8 != bpp\<close> on a non-zero divisor compares the two sizes.\<close>

lemma bpp_eq_8_iff:
  assumes "d \<noteq> 0"
  shows "(8 = (of_int (8 * n) :: rat) / of_int d) \<longleftrightarrow> n = d"
proof -
  have "(8 = (of_int (8 * n) :: rat) / of_int d) \<longleftrightarrow> (8 * (of_int d :: rat) = of_int (8 * n))"
    using assms by (simp add: field_simps)
  also have "\<dots> \<longleftrightarrow> (of_int (8 * d) :: rat) = of_int (8 * n)" by simp
  also have "\<dots> \<longleftrightarrow> 8 * d = 8 * n" by (simp only: of_int_eq_iff)
  also have "\<dots> \<longleftrightarrow> n = d" by auto
  finally show ?thesis .
qed

lemma symbols_loop_known:
  assumes "\<forall>s \<in> set syms. ZBarSymbol Z (sym_value s) \<noteq> None"
  shows "symbols_loop Z syms acc = Inr (acc @ map (to_Decoded Z) syms)"
  using assms by (induction syms arbitrary: acc) (auto simp: to_Decoded_def)

lemma symbols_loop_unknown:
  assumes "\<exists>s \<in> set syms. ZBarSymbol Z (sym_value s) = None"
  shows "symbols_loop Z syms acc = Inl ValueError"
  using assms by (induction syms arbitrary: acc) (auto split: option.splits)

lemma symbols_loop_Inr:
  assumes "symbols_loop Z syms acc = Inr results"
  shows "results = acc @ map (to_Decoded Z) syms"
proof (cases "\<forall>s \<in> set syms. ZBarSymbol Z (sym_value s) \<noteq> None")
  case True
  from symbols_loop_known [OF this, of acc] assms show ?thesis by simp
next
  case False
  then have "\<exists>s \<in> set syms. ZBarSymbol Z (sym_value s) = None" by auto
  from symbols_loop_unknown [OF this, of acc] assms show ?thesis by simp
qed

lemma decode_zero:
  assumes "width * height = 0"
  shows "decode_pixels Z (pixels, width, height) w = (Inl ZeroDivisionError, w)"
  using assms by (simp add: decode_pixels_def)

lemma decode_bad_shape:
  assumes "width * height \<noteq> 0" and "int (length pixels) \<noteq> width * height"
  shows "decode_pixels Z (pixels, width, height) w =
     (Inl (PyZbarError ''Unsupported bits-per-pixel''), w)"
  using assms bpp_eq_8_iff [of "width * height" "int (length pixels)"]
  by (simp add: decode_pixels_def Let_def)

lemma decode_no_scanner:
  assumes "width * height \<noteq> 0" and "int (length pixels) = width * height"
    and "\<not> scanner_available Z"
  shows "decode_pixels Z (pixels, width, height) w =
     (Inl (PyZbarError ''Could not create decoder''), w)"
  using assms bpp_eq_8_iff [of "width * height" "int (length pixels)"]
  by (simp add: decode_pixels_def Let_def zbar_image_scanner_def zbar_image_scanner_create_def)

lemma decode_no_image:
  assumes "width * height \<noteq> 0" and "int (length pixels) = width * height"
    and "scanner_available Z" and "\<not> image_available Z"
  shows "decode_pixels Z (pixels, width, height) w =
     (Inl (PyZbarError ''Could not create image''),
      w\<lparr>next_handle := Suc (next_handle w),
        scanners := (scanners w)(next_handle w := None),
        calls := calls w @ imageless_calls Z (next_handle w)\<rparr>)"
  using assms bpp_eq_8_iff [of "width * height" "int (length pixels)"]
  by (simp add: decode_pixels_def zbar_image_scanner_def scanner_block_def zbar_image_def
      native_defs Let_def imageless_calls_def)

text \<open>The run that reaches the scan, block by block from the inside.\<close>

lemma image_block_run:
  assumes "scanners w0 scanner = Some c" and "images w0 img = Some blank_image"
    and "scan Z c (decode_image pixels width height) = (n, syms)"
  shows "image_block Z pixels width height scanner img w0 =
     (if n < 0 then Inl (PyZbarError ''Unsupported image format'')
      else symbols_loop Z syms [],
      w0\<lparr>images := (images w0)(img \<mapsto> (decode_image pixels width height)\<lparr>img_symbols := syms\<rparr>),
         calls := calls w0 @ [Set_format img FOURCC_L800, Set_size img width height,
           Set_data img pixels (int (length pixels)), Scan_image scanner img]\<rparr>)"
  using assms
  by (simp add: image_block_def zbar_image_set_format_def zbar_image_set_size_def
      zbar_image_set_data_def zbar_scan_image_def zbar_image_first_symbol_def update_image_def
      decode_image_def blank_image_def Let_def)

lemma zbar_image_run:
  assumes "image_available Z" and "scanners w0 scanner = Some c"
    and "scan Z c (decode_image pixels width height) = (n, syms)"
  shows "zbar_image Z (image_block Z pixels width height scanner) w0 =
     (if n < 0 then Inl (PyZbarError ''Unsupported image format'')
      else symbols_loop Z syms [],
      w0\<lparr>next_handle := Suc (next_handle w0),
         images := (images w0)(next_handle w0 := None),
         calls := calls w0 @ [Image_create (next_handle w0),
           Set_format (next_handle w0) FOURCC_L800, Set_size (next_handle w0) width height,
           Set_data (next_handle w0) pixels (int (length pixels)),
           Scan_image scanner (next_handle w0), Image_destroy (next_handle w0)]\<rparr>)"
proof -
  let ?w1 = "w0\<lparr>next_handle := Suc (next_handle w0),
           images := (images w0)(next_handle w0 \<mapsto> blank_image),
           calls := calls w0 @ [Image_create (next_handle w0)]\<rparr>"
  have cr: "zbar_image_create Z w0 = (Some (next_handle w0), ?w1)"
    using assms(1) by (simp add: zbar_image_create_def)
  have "scanners ?w1 scanner = Some c" and "images ?w1 (next_handle w0) = Some blank_image"
    using assms(2) by simp_all
  from image_block_run [OF this assms(3)]
  show ?thesis
    by (simp add: zbar_image_def cr zbar_image_destroy_def)
qed

lemma scanner_block_run:
  assumes "image_available Z" and "scanners w0 scanner = Some []"
    and "scan Z (decode_config Z) (decode_image pixels width height) = (n, syms)"
  shows "scanner_block Z pixels width height scanner w0 =
     (if n < 0 then Inl (PyZbarError ''Unsupported image format'')
      else symbols_loop Z syms [],
      w0\<lparr>next_handle := Suc (next_handle w0),
         scanners := (scanners w0)(scanner \<mapsto> decode_config Z),
         images := (images w0)(next_handle w0 := None),
         calls := calls w0 @ [Set_config scanner (QRCODE Z) (CFG_ENABLE Z) 1,
           Set_config scanner (CODE128 Z) (CFG_ENABLE Z) 1,
           Image_create (next_handle w0),
           Set_format (next_handle w0) FOURCC_L800, Set_size (next_handle w0) width height,
           Set_data (next_handle w0) pixels (int (length pixels)),
           Scan_image scanner (next_handle w0), Image_destroy (next_handle w0)]\<rparr>)"
proof -
  let ?w2 = "w0\<lparr>scanners := (scanners w0)(scanner \<mapsto> decode_config Z),
       calls := calls w0 @ [Set_config scanner (QRCODE Z) (CFG_ENABLE Z) 1,
           Set_config scanner (CODE128 Z) (CFG_ENABLE Z) 1]\<rparr>"
  have cfg: "zbar_image_scanner_set_config scanner (CODE128 Z) (CFG_ENABLE Z) 1
          (zbar_image_scanner_set_config scanner (QRCODE Z) (CFG_ENABLE Z) 1 w0) = ?w2"
    using assms(2) by (simp add: zbar_image_scanner_set_config_def decode_config_def)
  have "scanners ?w2 scanner = Some (decode_config Z)" by simp
  from zbar_image_run [OF assms(1) this assms(3)]
  show ?thesis
    by (simp add: scanner_block_def cfg Let_def)
qed

lemma decode_scanned:
  assumes "width * height \<noteq> 0" and "int (length pixels) = width * height"
    and "scanner_available Z" and "image_available Z"
    and "scan Z (decode_config Z) (decode_image pixels width height) = (n, syms)"
  shows "decode_pixels Z (pixels, width, height) w =
          (if n < 0 then Inl (PyZbarError ''Unsupported image format'')
           else symbols_loop Z syms [],
           w\<lparr>next_handle := Suc (Suc (next_handle w)),
             scanners := (scanners w)(next_handle w := None),
             images := (images w)(Suc (next_handle w) := None),
             calls := calls w @ decode_calls Z pixels width height (next_handle w)\<rparr>)"
proof -
  let ?w1 = "w\<lparr>next_handle := Suc (next_handle w),
           scanners := (scanners w)(next_handle w \<mapsto> []),
           calls := calls w @ [Scanner_create (next_handle w)]\<rparr>"
  have cr: "zbar_image_scanner_create Z w = (Some (next_handle w), ?w1)"
    using assms(3) by (simp add: zbar_image_scanner_create_def)
  have "scanners ?w1 (next_handle w) = Some []" by simp
  from scanner_block_run [OF assms(4) this assms(5)]
  have "zbar_image_scanner Z (scanner_block Z pixels width height) w =
          (if n < 0 then Inl (PyZbarError ''Unsupported image format'')
           else symbols_loop Z syms [],
           w\<lparr>next_handle := Suc (Suc (next_handle w)),
             scanners := (scanners w)(next_handle w := None),
             images := (images w)(Suc (next_handle w) := None),
             calls := calls w @ decode_calls Z pixels width height (next_handle w)\<rparr>)"
    by (simp add: zbar_image_scanner_def cr zbar_image_scanner_destroy_def decode_calls_def)
  then show ?thesis
    using assms(1,2) bpp_eq_8_iff [of "width * height" "int (length pixels)"]
    by (simp add: decode_pixels_def Let_def)
qed

text \<open>The value of a call and the calls it makes, by the path it takes.\<close>

lemma decode_pixels_value:
  "fst (decode_pixels Z (pixels, width, height) w) =
     (if width * height = 0 then Inl ZeroDivisionError
      else if int (length pixels) \<noteq> width * height
        then Inl (PyZbarError ''Unsupported bits-per-pixel'')
      else if \<not> scanner_available Z then Inl (PyZbarError ''Could not create decoder'')
      else if \<not> image_available Z then Inl (PyZbarError ''Could not create image'')
      else if fst (scan Z (decode_config Z) (decode_image pixels width height)) < 0
        then Inl (PyZbarError ''Unsupported image format'')
      else symbols_loop Z (snd (scan Z (decode_config Z) (decode_image pixels width height))) [])"
proof -
  obtain n syms where sc: "scan Z (decode_config Z) (decode_image pixels width height) = (n, syms)"
    by (cases "scan Z (decode_config Z) (decode_image pixels width height)")
  show ?thesis
    using decode_zero [of width height Z pixels w]
      decode_bad_shape [of width height pixels Z w]
      decode_no_scanner [of width height pixels Z w]
      decode_no_image [of width height pixels Z w]
      decode_scanned [of width height pixels Z n syms w] sc
    by (simp only: fst_conv snd_conv split: if_splits) auto
qed

lemma decode_pixels_calls:
  "calls (snd (decode_pixels Z (pixels, width, height) w)) = calls w @
     (if width * height = 0 \<or> int (length pixels) \<noteq> width * height \<or> \<not> scanner_available Z
        then []
      else if \<not> image_available Z then imageless_calls Z (next_handle w)
      else decode_calls Z pixels width height (next_handle w))"
proof -
  obtain n syms where sc: "scan Z (decode_config Z) (decode_image pixels width height) = (n, syms)"
    by (cases "scan Z (decode_config Z) (decode_image pixels width height)")
  consider "width * height = 0"
    | "width * height \<noteq> 0" "int (length pixels) \<noteq> width * height"
    | "width * height \<noteq> 0" "int (length pixels) = width * height" "\<not> scanner_available Z"
    | "width * height \<noteq> 0" "int (length pixels) = width * height" "scanner_available Z"
        "\<not> image_available Z"
    | "width * height \<noteq> 0" "int (length pixels) = width * height" "scanner_available Z"
        "image_available Z"
    by blast
  then show ?thesis
  proof cases
    case 1 then show ?thesis by (simp add: decode_zero)
  next
    case 2 then show ?thesis by (simp add: decode_bad_shape)
  next
    case 3 then show ?thesis by (simp add: decode_no_scanner)
  next
    case 4 then show ?thesis by (simp add: decode_no_image)
  next
    case 5 then show ?thesis by (simp add: decode_scanned [OF 5 sc])
  qed
qed

text \<open>The argument: which ones line 90 rejects, and that nothing else fails there.\<close>

lemma image_pixels_Inl_iff:
  "image_pixels img = Inl e \<longleftrightarrow>
     e = IndexError \<and>
     (\<exists>shape plane. img = Ndarray shape plane \<and> (length shape < 3 \<or> shape ! 2 = 0))"
  by (cases img) (auto simp: image_pixels_def)

lemma image_pixels_Tuple:
  "image_pixels (Tuple pixels width height) = Inr (pixels, width, height)"
  by (simp add: image_pixels_def)

lemma decode_rejected:
  assumes "image_pixels img = Inl e"
  shows "decode Z img w = (Inl e, w)"
  using assms by (simp add: decode_def)

lemma decode_accepted:
  assumes "image_pixels img = Inr (pixels, width, height)"
  shows "decode Z img w = decode_pixels Z (pixels, width, height) w"
  using assms by (simp add: decode_def)

lemma decode_value:
  assumes "image_pixels img = Inr (pixels, width, height)"
  shows "fst (decode Z img w) =
     (if width * height = 0 then Inl ZeroDivisionError
      else if int (length pixels) \<noteq> width * height
        then Inl (PyZbarError ''Unsupported bits-per-pixel'')
      else if \<not> scanner_available Z then Inl (PyZbarError ''Could not create decoder'')
      else if \<not> image_available Z then Inl (PyZbarError ''Could not create image'')
      else if fst (scan Z (decode_config Z) (decode_image pixels width height)) < 0
        then Inl (PyZbarError ''Unsupported image format'')
      else symbols_loop Z (snd (scan Z (decode_config Z) (decode_image pixels width height))) [])"
  by (simp only: decode_accepted [OF assms] decode_pixels_value)

lemma new_calls_eq:
  assumes "image_pixels img = Inr (pixels, width, height)"
  shows "new_calls Z img w =
     (if width * height = 0 \<or> int (length pixels) \<noteq> width * height \<or> \<not> scanner_available Z
        then []
      else if \<not> image_available Z then imageless_calls Z (next_handle w)
      else decode_calls Z pixels width height (next_handle w))"
  unfolding new_calls_def
  by (simp only: decode_accepted [OF assms] decode_pixels_calls append_eq_conv_conj drop_append)
    simp

lemma new_calls_rejected:
  assumes "image_pixels img = Inl e"
  shows "new_calls Z img w = []"
  unfolding new_calls_def by (simp add: decode_rejected [OF assms])

lemma calls_extend:
  "calls (snd (decode Z input w)) = calls w @ new_calls Z input w"
proof (cases "image_pixels input")
  case (Inl e)
  then show ?thesis by (simp add: decode_rejected new_calls_rejected)
next
  case (Inr t)
  obtain pixels width height where t: "t = (pixels, width, height)" by (cases t) auto
  from Inr t have ip: "image_pixels input = Inr (pixels, width, height)" by simp
  show ?thesis
    by (simp only: decode_accepted [OF ip] decode_pixels_calls new_calls_eq [OF ip])
qed

text \<open>The three shapes of the world after a call.\<close>

lemma decode_world_cases:
  obtains
    (untouched) "snd (decode Z input w) = w" and "new_calls Z input w = []"
  | (imageless)
      "snd (decode Z input w) =
         w\<lparr>next_handle := Suc (next_handle w),
           scanners := (scanners w)(next_handle w := None),
           calls := calls w @ imageless_calls Z (next_handle w)\<rparr>"
      and "new_calls Z input w = imageless_calls Z (next_handle w)"
  | (scanned) pixels width height where
      "image_pixels input = Inr (pixels, width, height)"
      and "snd (decode Z input w) =
         w\<lparr>next_handle := Suc (Suc (next_handle w)),
           scanners := (scanners w)(next_handle w := None),
           images := (images w)(Suc (next_handle w) := None),
           calls := calls w @ decode_calls Z pixels width height (next_handle w)\<rparr>"
      and "new_calls Z input w = decode_calls Z pixels width height (next_handle w)"
proof (cases "image_pixels input")
  case (Inl e)
  then show thesis by (intro untouched) (simp_all add: decode_rejected new_calls_rejected)
next
  case (Inr t)
  obtain pixels width height where t: "t = (pixels, width, height)" by (cases t) auto
  from Inr t have ip: "image_pixels input = Inr (pixels, width, height)" by simp
  note dec = decode_accepted [OF ip]
  note nc = new_calls_eq [OF ip]
  obtain n syms where sc: "scan Z (decode_config Z) (decode_image pixels width height) = (n, syms)"
    by (cases "scan Z (decode_config Z) (decode_image pixels width height)")
  consider "width * height = 0"
    | "width * height \<noteq> 0" "int (length pixels) \<noteq> width * height"
    | "width * height \<noteq> 0" "int (length pixels) = width * height" "\<not> scanner_available Z"
    | "width * height \<noteq> 0" "int (length pixels) = width * height" "scanner_available Z"
        "\<not> image_available Z"
    | "width * height \<noteq> 0" "int (length pixels) = width * height" "scanner_available Z"
        "image_available Z"
    by blast
  then show thesis
  proof cases
    case 1
    then show thesis by (intro untouched) (simp_all add: dec decode_zero nc)
  next
    case 2
    then show thesis by (intro untouched) (simp_all add: dec decode_bad_shape nc)
  next
    case 3
    then show thesis by (intro untouched) (simp_all add: dec decode_no_scanner nc)
  next
    case 4
    then show thesis by (intro imageless) (simp_all add: dec decode_no_image nc)
  next
    case 5
    have a: "new_calls Z input w = decode_calls Z pixels width height (next_handle w)"
      using 5 by (simp add: nc)
    have b: "snd (decode Z input w) =
         w\<lparr>next_handle := Suc (Suc (next_handle w)),
           scanners := (scanners w)(next_handle w := None),
           images := (images w)(Suc (next_handle w) := None),
           calls := calls w @ decode_calls Z pixels width height (next_handle w)\<rparr>"
      by (simp add: dec decode_scanned [OF 5 sc])
    show thesis by (rule scanned [OF ip b a])
  qed
qed

lemma decode_value_any_world:
  "fst (decode Z input w) = fst (decode Z input w')"
proof (cases "image_pixels input")
  case (Inl e)
  then show ?thesis by (simp add: decode_rejected)
next
  case (Inr t)
  obtain pixels width height where t: "t = (pixels, width, height)" by (cases t) auto
  from Inr t have ip: "image_pixels input = Inr (pixels, width, height)" by simp
  show ?thesis by (simp only: decode_value [OF ip])
qed

section \<open>Properties\<close>

text \<open>
  In the statements below, \<open>image_pixels img = Inr (pixels, width, height)\<close> says that lines
  84 to 94 took these pixel bytes, this width and this height from the argument; for a
  tuple argument they are its components (lemma \<open>image_pixels_Tuple\<close>).
\<close>

text \<open>
  C9. For every input image with width times height equal to zero, the bits-per-pixel
  computation divides by zero: the call raises \<^verbatim>\<open>ZeroDivisionError\<close>, not the
  \<^verbatim>\<open>PyZbarError\<close> of an unsupported format, whatever the pixel bytes are.
\<close>

theorem decode_zero_area:
  assumes "image_pixels img = Inr (pixels, width, height)"
    and "width * height = 0"
  shows "fst (decode Z img w) = Inl ZeroDivisionError"
  using assms(2) by (simp add: decode_value [OF assms(1)])

theorem decode_zero_area_witness:
  "image_pixels (Tuple [1] 0 5) = Inr ([1], 0, 5) \<and> (0::int) * 5 = 0 \<and>
   fst (decode zbar_blind (Tuple [1] 0 5) fresh_world) = Inl ZeroDivisionError"
proof -
  have ip: "image_pixels (Tuple [1] 0 5) = Inr ([1], 0, 5)" by (rule image_pixels_Tuple)
  have z: "(0::int) * 5 = 0" by simp
  from decode_zero_area [OF ip z, of zbar_blind fresh_world] ip z show ?thesis by simp
qed

text \<open>
  C1. A buffer whose byte length differs from width times height should fail with
  \<^verbatim>\<open>PyZbarError\<close>. Three bytes declared as 0 by 3 have the wrong length, and the call
  leaves with \<^verbatim>\<open>ZeroDivisionError\<close> instead. (With a non-zero product the call does raise
  \<^verbatim>\<open>PyZbarError\<close> and touches nothing: lemma \<open>decode_bad_shape\<close>.)
\<close>

theorem decode_short_buffer_zero_width:
  "int (length [255, 255, 255 :: 8 word]) \<noteq> 0 * 3 \<and>
   decode zbar_blind (Tuple [255, 255, 255] 0 3) fresh_world =
     (Inl ZeroDivisionError, fresh_world)"
  by (simp add: decode_accepted [OF image_pixels_Tuple] decode_zero)

text \<open>
  C2, as stated: every well-shaped image in which the scanner finds no barcode gives the
  empty list and no error. A white pixel, well shaped, scanned by a library whose
  \<^verbatim>\<open>zbar_scan_image\<close> reports no symbol and returns a negative code: the call raises
  \<^verbatim>\<open>PyZbarError\<close>.
\<close>

theorem decode_blank_scan_fails:
  "int (length [255 :: 8 word]) = 1 * 1 \<and>
   snd (scan zbar_failing_scan (decode_config zbar_failing_scan) (decode_image [255] 1 1)) = [] \<and>
   fst (decode zbar_failing_scan (Tuple [255] 1 1) fresh_world) =
     Inl (PyZbarError ''Unsupported image format'')"
  by (simp add: decode_value [OF image_pixels_Tuple] zbar_failing_scan_def zbar_blind_def)

text \<open>
  C2, amended. For every well-shaped image of non-zero area, when both native handles are
  created and \<^verbatim>\<open>zbar_scan_image\<close> returns a non-negative code and no symbol, the call
  returns the empty list and raises nothing.
\<close>

theorem decode_no_barcodes:
  assumes "image_pixels img = Inr (pixels, width, height)"
    and "int (length pixels) = width * height" and "width * height \<noteq> 0"
    and "scanner_available Z" and "image_available Z"
    and "scan Z (decode_config Z) (decode_image pixels width height) = (n, [])"
    and "0 \<le> n"
  shows "fst (decode Z img w) = Inr []"
  using assms(2-) by (simp add: decode_value [OF assms(1)])

theorem decode_no_barcodes_witness:
  "image_pixels (Tuple [255] 1 1) = Inr ([255], 1, 1) \<and>
   int (length [255 :: 8 word]) = 1 * 1 \<and> (1::int) * 1 \<noteq> 0 \<and>
   scanner_available zbar_blind \<and> image_available zbar_blind \<and>
   scan zbar_blind (decode_config zbar_blind) (decode_image [255] 1 1) = (0, []) \<and>
   (0::int) \<le> 0 \<and>
   fst (decode zbar_blind (Tuple [255] 1 1) fresh_world) = Inr [] \<and>
   image_pixels rgb_pixel = Inr ([255], 1, 1) \<and>
   fst (decode zbar_blind rgb_pixel fresh_world) = Inr []"
proof -
  have ip: "image_pixels rgb_pixel = Inr ([255], 1, 1)"
    by (simp add: rgb_pixel_def image_pixels_def)
  show ?thesis
    using decode_no_barcodes [OF image_pixels_Tuple, of "[255]" 1 1 zbar_blind 0 fresh_world]
      decode_no_barcodes [OF ip, of zbar_blind 0 fresh_world] ip
    by (simp add: zbar_blind_def image_pixels_Tuple)
qed

text \<open>
  C3, as stated: a call aborts only on a malformed shape. A white pixel, well shaped, with
  a library that cannot create a scanner: the call raises \<^verbatim>\<open>PyZbarError\<close>.
\<close>

theorem decode_no_scanner_aborts:
  "int (length [255 :: 8 word]) = 1 * 1 \<and>
   fst (decode zbar_no_scanner (Tuple [255] 1 1) fresh_world) =
     Inl (PyZbarError ''Could not create decoder'')"
  by (simp add: decode_value [OF image_pixels_Tuple] zbar_no_scanner_def zbar_blind_def)

text \<open>
  C3, amended. Taking the PIL and numpy conversion calls of lines 87 to 91 to return:

  \<^item> an array argument of fewer than three dimensions, or with an empty third axis, aborts
    the call with \<^verbatim>\<open>IndexError\<close> at line 90;

  \<^item> every other argument yields pixel bytes, a width and a height; when their area is not
    zero and the reported symbol types are all members of \<^verbatim>\<open>ZBarSymbol\<close>, the call aborts
    exactly when the byte length differs from width times height, or the scanner handle
    cannot be created, or the image handle cannot be created, or \<^verbatim>\<open>zbar_scan_image\<close>
    returns a negative code, and every such abort is a \<^verbatim>\<open>PyZbarError\<close>.
\<close>

theorem decode_aborts_iff:
  "((\<exists>shape plane. img = Ndarray shape plane \<and> (length shape < 3 \<or> shape ! 2 = 0)) \<longrightarrow>
      fst (decode Z img w) = Inl IndexError) \<and>
   ((\<exists>shape plane. img = Ndarray shape plane \<and> (length shape < 3 \<or> shape ! 2 = 0)) \<or>
    (\<exists>p wd ht. image_pixels img = Inr (p, wd, ht))) \<and>
   (image_pixels img = Inr (pixels, width, height) \<longrightarrow>
    width * height \<noteq> 0 \<longrightarrow>
    (\<forall>s \<in> set (snd (scan Z (decode_config Z) (decode_image pixels width height))).
       ZBarSymbol Z (sym_value s) \<noteq> None) \<longrightarrow>
      ((\<exists>e. fst (decode Z img w) = Inl e) \<longleftrightarrow>
         (int (length pixels) \<noteq> width * height \<or> \<not> scanner_available Z \<or>
          \<not> image_available Z \<or>
          fst (scan Z (decode_config Z) (decode_image pixels width height)) < 0)) \<and>
      (\<forall>e. fst (decode Z img w) = Inl e \<longrightarrow> (\<exists>msg. e = PyZbarError msg)))"
proof (intro conjI impI)
  assume "\<exists>shape plane. img = Ndarray shape plane \<and> (length shape < 3 \<or> shape ! 2 = 0)"
  then have "image_pixels img = Inl IndexError" by (simp add: image_pixels_Inl_iff)
  then show "fst (decode Z img w) = Inl IndexError" by (simp add: decode_rejected)
next
  show "(\<exists>shape plane. img = Ndarray shape plane \<and> (length shape < 3 \<or> shape ! 2 = 0)) \<or>
    (\<exists>p wd ht. image_pixels img = Inr (p, wd, ht))"
  proof (cases "image_pixels img")
    case (Inl e)
    then show ?thesis by (simp add: image_pixels_Inl_iff)
  next
    case (Inr t)
    then show ?thesis by (cases t) auto
  qed
next
  assume ip: "image_pixels img = Inr (pixels, width, height)"
    and area: "width * height \<noteq> 0"
    and known: "\<forall>s \<in> set (snd (scan Z (decode_config Z) (decode_image pixels width height))).
       ZBarSymbol Z (sym_value s) \<noteq> None"
  show "(\<exists>e. fst (decode Z img w) = Inl e) \<longleftrightarrow>
         (int (length pixels) \<noteq> width * height \<or> \<not> scanner_available Z \<or>
          \<not> image_available Z \<or>
          fst (scan Z (decode_config Z) (decode_image pixels width height)) < 0)"
    using area symbols_loop_known [OF known, of "[]"]
    by (simp add: decode_value [OF ip])
  show "\<forall>e. fst (decode Z img w) = Inl e \<longrightarrow> (\<exists>msg. e = PyZbarError msg)"
    using area symbols_loop_known [OF known, of "[]"]
    by (simp add: decode_value [OF ip])
qed

theorem decode_aborts_iff_witness:
  "fst (decode zbar_blind flat_array fresh_world) = Inl IndexError \<and>
   image_pixels (Tuple [255] 1 1) = Inr ([255], 1, 1) \<and>
   (1::int) * 1 \<noteq> 0 \<and>
   set (snd (scan zbar_no_image (decode_config zbar_no_image) (decode_image [255] 1 1))) = {} \<and>
   \<not> image_available zbar_no_image \<and>
   (\<exists>e. fst (decode zbar_no_image (Tuple [255] 1 1) fresh_world) = Inl e)"
  using decode_aborts_iff [of flat_array zbar_blind fresh_world]
    decode_aborts_iff [of "Tuple [255] 1 1" zbar_no_image fresh_world "[255]" 1 1]
  by (simp add: flat_array_def zbar_no_image_def zbar_blind_def image_pixels_Tuple)

text \<open>
  C4, as stated: no two entries of the result have the same data and type. A library that
  reports the same QR symbol twice: the result has the entry twice.
\<close>

theorem decode_keeps_twins:
  "fst (decode zbar_twins (Tuple [255] 1 1) fresh_world) =
     Inr [\<lparr>data = [72, 73], type = ''QRCODE''\<rparr>, \<lparr>data = [72, 73], type = ''QRCODE''\<rparr>]"
  by (simp add: decode_value [OF image_pixels_Tuple] zbar_twins_def zbar_blind_def qr_HI_def
      string_at_def)

text \<open>
  C4, amended. The list a call returns has one entry for each symbol of the native result
  list, in the order of that list: \<^verbatim>\<open>decode\<close> removes no duplicate, so the result is free
  of duplicates exactly when the entries of the native symbols are.
\<close>

theorem decode_one_entry_per_symbol:
  assumes "image_pixels img = Inr (pixels, width, height)"
    and "fst (decode Z img w) = Inr results"
  shows "results =
           map (to_Decoded Z) (snd (scan Z (decode_config Z) (decode_image pixels width height))) \<and>
         (distinct results \<longleftrightarrow>
           distinct (map (to_Decoded Z)
             (snd (scan Z (decode_config Z) (decode_image pixels width height)))))"
proof -
  from assms(2) have "symbols_loop Z
      (snd (scan Z (decode_config Z) (decode_image pixels width height))) [] = Inr results"
    by (simp add: decode_value [OF assms(1)] split: if_splits)
  from symbols_loop_Inr [OF this] show ?thesis by simp
qed

theorem decode_one_entry_per_symbol_witness:
  "image_pixels (Tuple [255] 1 1) = Inr ([255], 1, 1) \<and>
   fst (decode zbar_twins (Tuple [255] 1 1) fresh_world) =
     Inr [\<lparr>data = [72, 73], type = ''QRCODE''\<rparr>, \<lparr>data = [72, 73], type = ''QRCODE''\<rparr>] \<and>
   [\<lparr>data = [72, 73], type = ''QRCODE''\<rparr>, \<lparr>data = [72, 73], type = ''QRCODE''\<rparr>] =
     map (to_Decoded zbar_twins)
       (snd (scan zbar_twins (decode_config zbar_twins) (decode_image [255] 1 1)))"
proof -
  have ip: "image_pixels (Tuple [255] 1 1) = Inr ([255], 1, 1)" by (rule image_pixels_Tuple)
  have r: "fst (decode zbar_twins (Tuple [255] 1 1) fresh_world) =
     Inr [\<lparr>data = [72, 73], type = ''QRCODE''\<rparr>, \<lparr>data = [72, 73], type = ''QRCODE''\<rparr>]"
    by (simp add: decode_value [OF ip] zbar_twins_def zbar_blind_def qr_HI_def string_at_def)
  from decode_one_entry_per_symbol [OF ip r] ip r show ?thesis by simp
qed

text \<open>
  C5. The data of a returned symbol should be the complete decoded byte sequence. A QR
  symbol whose payload is the three bytes 41 00 42 comes back with the single byte 41:
  \<^verbatim>\<open>string_at\<close> is called without the data length and stops at the NUL byte.
\<close>

theorem decode_truncates_at_nul:
  "sym_data qr_with_nul = [65, 0, 66] \<and>
   snd (scan zbar_binary (decode_config zbar_binary) (decode_image [255] 1 1)) = [qr_with_nul] \<and>
   fst (decode zbar_binary (Tuple [255] 1 1) fresh_world) =
     Inr [\<lparr>data = [65], type = ''QRCODE''\<rparr>]"
  by (simp add: decode_value [OF image_pixels_Tuple] zbar_binary_def zbar_blind_def
      qr_with_nul_def string_at_def)

text \<open>
  C6. Calling \<^verbatim>\<open>decode\<close> twice on the same input, the second call in the world the first
  one left, gives the same outcome: the same list in the same order, or the same error.
\<close>

theorem decode_twice:
  "fst (decode Z input (snd (decode Z input w))) = fst (decode Z input w)"
  by (rule decode_value_any_world)

theorem decode_twice_witness:
  "fst (decode zbar_binary (Tuple [255] 1 1)
         (snd (decode zbar_binary (Tuple [255] 1 1) fresh_world))) =
     Inr [\<lparr>data = [65], type = ''QRCODE''\<rparr>]"
  using decode_twice [of zbar_binary "Tuple [255] 1 1" fresh_world]
  by (simp add: decode_value [OF image_pixels_Tuple] zbar_binary_def zbar_blind_def
      qr_with_nul_def string_at_def)

text \<open>
  C7, as stated: the caller passes the set of enabled tags. \<^verbatim>\<open>decode\<close> has no such
  argument: for a caller who wants QR codes only, the scanner is still set up with
  CODE128 enabled.
\<close>

theorem decode_ignores_callers_tags:
  "config_calls (new_calls zbar_blind (Tuple [255] 1 1) fresh_world) =
     [(64, 0, 1), (128, 0, 1)] \<and>
   enabledSymbologies_config zbar_blind [QRCODE zbar_blind] = [(64, 0, 1)] \<and>
   config_calls (new_calls zbar_blind (Tuple [255] 1 1) fresh_world) \<noteq>
     enabledSymbologies_config zbar_blind [QRCODE zbar_blind]"
  by (simp add: new_calls_eq [OF image_pixels_Tuple] decode_calls_def
      enabledSymbologies_config_def zbar_blind_def fresh_world_def)

text \<open>
  C7, amended. \<^verbatim>\<open>decode\<close> takes no configuration. Every call that creates a scanner
  enables exactly QRCODE and CODE128 on it, in this order and with the value 1, and makes
  no other configuration call; a call that creates no scanner makes none.
\<close>

theorem decode_config_fixed:
  "config_calls (new_calls Z img w) =
     (case image_pixels img of
        Inl e \<Rightarrow> []
      | Inr (pixels, width, height) \<Rightarrow>
          if width * height \<noteq> 0 \<and> int (length pixels) = width * height \<and> scanner_available Z
          then decode_config Z else [])"
proof (cases "image_pixels img")
  case (Inl e)
  then show ?thesis by (simp add: new_calls_rejected)
next
  case (Inr t)
  obtain pixels width height where t: "t = (pixels, width, height)" by (cases t) auto
  from Inr t have ip: "image_pixels img = Inr (pixels, width, height)" by simp
  show ?thesis
    by (simp add: ip new_calls_eq [OF ip] decode_calls_def imageless_calls_def decode_config_def)
qed

theorem decode_config_fixed_witness:
  "config_calls (new_calls zbar_no_image (Tuple [255] 1 1) fresh_world) =
     [(64, 0, 1), (128, 0, 1)]"
  using decode_config_fixed [of zbar_no_image "Tuple [255] 1 1" fresh_world]
  by (simp add: decode_config_def zbar_no_image_def zbar_blind_def image_pixels_Tuple)

text \<open>
  C8. No state is shared between calls. In a world where the library handed out every
  live handle, a call leaves the live scanners and the live images as it found them
  (nothing it created survives it), every handle it passes to the library is one the
  library created during this call, and its outcome is the same in every world: it
  depends on the input alone.
\<close>

theorem decode_shares_no_state:
  assumes "wf_world w"
  shows "scanners (snd (decode Z input w)) = scanners w \<and>
         images (snd (decode Z input w)) = images w \<and>
         wf_world (snd (decode Z input w)) \<and>
         (\<forall>c \<in> set (new_calls Z input w). \<forall>h \<in> set (call_handles c).
            next_handle w \<le> h \<and> h < next_handle (snd (decode Z input w))) \<and>
         fst (decode Z input w') = fst (decode Z input w)"
proof -
  have s: "scanners w (next_handle w) = None" and i: "images w (Suc (next_handle w)) = None"
    using assms unfolding wf_world_def by (force simp: domIff)+
  have s': "(scanners w)(next_handle w := None) = scanners w"
    and i': "(images w)(Suc (next_handle w) := None) = images w"
    using s i by (auto simp: fun_eq_iff)
  have lt: "\<And>h. h \<in> dom (scanners w) \<union> dom (images w) \<Longrightarrow> h < next_handle w"
    using assms unfolding wf_world_def by blast
  have "scanners (snd (decode Z input w)) = scanners w \<and>
         images (snd (decode Z input w)) = images w \<and>
         wf_world (snd (decode Z input w)) \<and>
         (\<forall>c \<in> set (new_calls Z input w). \<forall>h \<in> set (call_handles c).
            next_handle w \<le> h \<and> h < next_handle (snd (decode Z input w)))"
  proof (cases rule: decode_world_cases [of Z input w])
    case untouched
    then show ?thesis using assms by simp
  next
    case imageless
    then show ?thesis
      using s' lt by (auto simp: imageless_calls_def wf_world_def less_Suc_eq dest!: lt)
  next
    case (scanned pixels width height)
    from scanned(2,3) show ?thesis
      using s' i' lt by (auto simp: decode_calls_def wf_world_def less_Suc_eq dest!: lt)
  qed
  then show ?thesis using decode_value_any_world [of Z input w' w] by simp
qed

theorem decode_shares_no_state_witness:
  "wf_world fresh_world \<and>
   scanners (snd (decode zbar_twins (Tuple [255] 1 1) fresh_world)) = scanners fresh_world \<and>
   images (snd (decode zbar_twins (Tuple [255] 1 1) fresh_world)) = images fresh_world \<and>
   fst (decode zbar_twins (Tuple [255] 1 1)
         (snd (decode zbar_twins (Tuple [255] 1 1) fresh_world))) =
     fst (decode zbar_twins (Tuple [255] 1 1) fresh_world)"
proof -
  have wf: "wf_world fresh_world" by (simp add: wf_world_def fresh_world_def)
  from decode_shares_no_state [OF wf, of zbar_twins "Tuple [255] 1 1"
      "snd (decode zbar_twins (Tuple [255] 1 1) fresh_world)"] wf
  show ?thesis by simp
qed

text \<open>
  C10. Every native handle a call creates is destroyed exactly once before the call
  returns or raises: the calls it makes keep the handle discipline and leave no handle
  live, and each handle has as many destroy calls as create calls, at most one. This
  holds on every path, the one where \<^verbatim>\<open>zbar_scan_image\<close> returns a negative value
  included.
\<close>

theorem decode_destroys_handles:
  "calls (snd (decode Z input w)) = calls w @ new_calls Z input w \<and>
   live_after (new_calls Z input w) [] = Some [] \<and>
   (\<forall>h. count_list (new_calls Z input w) (Scanner_destroy h) =
          count_list (new_calls Z input w) (Scanner_create h) \<and>
        count_list (new_calls Z input w) (Image_destroy h) =
          count_list (new_calls Z input w) (Image_create h) \<and>
        count_list (new_calls Z input w) (Scanner_create h) \<le> 1 \<and>
        count_list (new_calls Z input w) (Image_create h) \<le> 1)"
proof -
  have "live_after (new_calls Z input w) [] = Some [] \<and>
   (\<forall>h. count_list (new_calls Z input w) (Scanner_destroy h) =
          count_list (new_calls Z input w) (Scanner_create h) \<and>
        count_list (new_calls Z input w) (Image_destroy h) =
          count_list (new_calls Z input w) (Image_create h) \<and>
        count_list (new_calls Z input w) (Scanner_create h) \<le> 1 \<and>
        count_list (new_calls Z input w) (Image_create h) \<le> 1)"
  proof (cases rule: decode_world_cases [of Z input w])
    case untouched
    then show ?thesis by simp
  next
    case imageless
    then show ?thesis by (simp add: imageless_calls_def)
  next
    case (scanned pixels width height)
    from scanned(3) show ?thesis by (simp add: decode_calls_def)
  qed
  then show ?thesis using calls_extend [of Z input w] by simp
qed

theorem decode_destroys_handles_witness:
  "fst (decode zbar_failing_scan (Tuple [255] 1 1) fresh_world) =
     Inl (PyZbarError ''Unsupported image format'') \<and>
   new_calls zbar_failing_scan (Tuple [255] 1 1) fresh_world =
     [Scanner_create 1, Set_config 1 64 0 1, Set_config 1 128 0 1, Image_create 2,
      Set_format 2 808466521, Set_size 2 1 1, Set_data 2 [255] 1, Scan_image 1 2,
      Image_destroy 2, Scanner_destroy 1] \<and>
   live_after (new_calls zbar_failing_scan (Tuple [255] 1 1) fresh_world) [] = Some []"
  using decode_destroys_handles [of zbar_failing_scan "Tuple [255] 1 1" fresh_world]
  by (simp add: decode_value [OF image_pixels_Tuple] new_calls_eq [OF image_pixels_Tuple]
      decode_calls_def zbar_failing_scan_def zbar_blind_def fresh_world_def FOURCC_L800_def
      FOURCC_def)

end
